theory Spec2Isabelle
  imports Complex_Main
begin

section \<open>The nicotine reward-circuit engine of NicotinaCircuitV11.tsx\<close>

text \<open>
  The engine is the part of \<^verbatim>\<open>src/NicotinaCircuitV11.tsx\<close> that is free of markup:
  \<^verbatim>\<open>clamp01\<close>, \<^verbatim>\<open>normalizePool\<close>, \<^verbatim>\<open>poolToState\<close>, \<^verbatim>\<open>stepAlpha4b2\<close>, \<^verbatim>\<open>stepModel\<close> and the
  handlers \<^verbatim>\<open>applyPreset\<close>, \<^verbatim>\<open>doPuff\<close>, \<^verbatim>\<open>advance60\<close> and \<^verbatim>\<open>tick\<close> of the component.

  A TypeScript \<^verbatim>\<open>number\<close> is modelled as a \<^typ>\<open>real\<close>: arithmetic is exact, so rounding,
  overflow, \<^verbatim>\<open>NaN\<close> and \<^verbatim>\<open>Infinity\<close> are outside the model. The source divides in three
  places. \<^verbatim>\<open>normalizePool\<close> divides by a sum it has tested to be positive, and the recovery
  rate divides by \<^verbatim>\<open>Math.max(1, desensWindowMin)\<close>. The quotient
  \<^verbatim>\<open>(nic - actThreshold) / (1 - actThreshold)\<close> has a zero denominator at
  \<^verbatim>\<open>actThreshold = 1\<close>, where the source only reads it under the guard
  \<^verbatim>\<open>nic > actThreshold\<close>, and the exponent \<^verbatim>\<open>dtMin / nicotineHalfLifeMin\<close> has one at
  \<^verbatim>\<open>nicotineHalfLifeMin = 0\<close>. HOL's \<open>x / 0 = 0\<close> is not what JavaScript computes there, so
  the theorems below that depend on these quotients carry the hypotheses \<open>nic \<le> 1\<close> and
  \<open>0 < nicotineHalfLifeMin\<close>.
\<close>

subsection \<open>Helpers and data\<close>

definition clamp01 :: "real \<Rightarrow> real" where
  "clamp01 x = max 0 (min 1 x)"

datatype Alpha4b2State = Basal | Activado | Desensibilizado

record ModelParams =
  nicotineHalfLifeMin :: real
  actThreshold :: real
  desensRateDA :: real
  desensRateGABA :: real
  alpha7Threshold :: real
  desensWindowMin :: real

definition DEFAULT_PARAMS :: ModelParams where
  "DEFAULT_PARAMS =
     \<lparr> nicotineHalfLifeMin = 120,
       actThreshold = 15 / 100,
       desensRateDA = 3 / 100,
       desensRateGABA = 4 / 100,
       alpha7Threshold = 8 / 100,
       desensWindowMin = 45 \<rparr>"

record ReceptorPool =
  basal :: real
  activado :: real
  desens :: real

definition normalizePool :: "ReceptorPool \<Rightarrow> ReceptorPool" where
  "normalizePool p =
     (let s = basal p + activado p + desens p in
      if s \<le> 0 then \<lparr> basal = 1, activado = 0, desens = 0 \<rparr>
      else \<lparr> basal = basal p / s, activado = activado p / s, desens = desens p / s \<rparr>)"

definition poolToState :: "ReceptorPool \<Rightarrow> Alpha4b2State" where
  "poolToState p =
     (if desens p \<ge> basal p \<and> desens p \<ge> activado p then Desensibilizado
      else if activado p \<ge> basal p \<and> activado p \<ge> desens p then Activado
      else Basal)"

subsection \<open>Receptor pool kinetics\<close>

text \<open>
  \<open>alpha4b2Fluxes\<close> is the body of \<^verbatim>\<open>stepAlpha4b2\<close> up to, and without, its final call of
  \<^verbatim>\<open>normalizePool\<close>: the three transfers applied in the source's order to the local copy
  \<^verbatim>\<open>p\<close>. Each \<open>let\<close> is one assignment of the source.
\<close>

definition alpha4b2Fluxes ::
  "real \<Rightarrow> real \<Rightarrow> ReceptorPool \<Rightarrow> ModelParams \<Rightarrow> real \<Rightarrow> ReceptorPool" where
  "alpha4b2Fluxes dtMin nic pool params desensRate =
     (let p = pool;
          recoverRate = 1 / max 1 (desensWindowMin params);
          nicDrive = clamp01 ((nic - actThreshold params) / (1 - actThreshold params));
          toActive = basal p * (if nic > actThreshold params then (25 / 100) * nicDrive else 0) * dtMin;
          p = p\<lparr> basal := basal p - toActive \<rparr>;
          p = p\<lparr> activado := activado p + toActive \<rparr>;
          toDesens = activado p * (if nic > actThreshold params then desensRate else 0) * dtMin;
          p = p\<lparr> activado := activado p - toDesens \<rparr>;
          p = p\<lparr> desens := desens p + toDesens \<rparr>;
          lowNic = (nic < actThreshold params * (9 / 10));
          k = (if lowNic then recoverRate else recoverRate * (35 / 100));
          toBasal = desens p * k * dtMin;
          p = p\<lparr> desens := desens p - toBasal \<rparr>;
          p = p\<lparr> basal := basal p + toBasal \<rparr>
      in p)"

definition stepAlpha4b2 ::
  "real \<Rightarrow> real \<Rightarrow> ReceptorPool \<Rightarrow> ModelParams \<Rightarrow> real \<Rightarrow> ReceptorPool" where
  "stepAlpha4b2 dtMin nic pool params desensRate =
     normalizePool (alpha4b2Fluxes dtMin nic pool params desensRate)"

subsection \<open>The step function\<close>

record ModelOut =
  nicotine :: real
  alpha7AchOn :: bool
  alpha7GluOn :: bool
  achDrive :: real
  gluDrive :: real
  poolDA :: ReceptorPool
  poolGABA :: ReceptorPool
  gaba :: real
  da :: real
  direct :: real
  indirect :: real

text \<open>\<^verbatim>\<open>Math.pow(0.5, x)\<close> is \<open>(1 / 2) powr x\<close>, the real power of a positive base.\<close>

definition stepModel ::
  "real \<Rightarrow> real \<Rightarrow> ReceptorPool \<Rightarrow> ReceptorPool \<Rightarrow> bool \<Rightarrow> ModelParams \<Rightarrow> ModelOut" where
  "stepModel dtMin nicotine0 poolDA0 poolGABA0 puffNow params =
     (let nic = nicotine0;
          nic = (if puffNow then clamp01 (nic + 25 / 100) else nic);
          decay = (1 / 2) powr (dtMin / nicotineHalfLifeMin params);
          nic = clamp01 (nic * decay);
          a7AchOn = (nic > alpha7Threshold params);
          a7GluOn = (nic > alpha7Threshold params);
          achD = clamp01 (35 / 100 + (if a7AchOn then (45 / 100) * nic else 5 / 100));
          gluD = clamp01 (3 / 10 + (if a7GluOn then (55 / 100) * nic else 5 / 100));
          nextPoolDA = stepAlpha4b2 dtMin nic poolDA0 params (desensRateDA params);
          nextPoolGABA = stepAlpha4b2 dtMin nic poolGABA0 params (desensRateGABA params);
          dir = clamp01 (15 / 100
                  + (95 / 100) * activado nextPoolDA * ((55 / 100) * achD + (65 / 100) * gluD));
          gab = clamp01 (25 / 100 + (95 / 100) * activado nextPoolGABA
                  - (85 / 100) * desens nextPoolGABA);
          ind = clamp01 (15 / 100 + (9 / 10) * (1 - gab));
          dop = clamp01 (1 / 10 + (75 / 100) * dir + (35 / 100) * ind)
      in \<lparr> nicotine = nic,
           alpha7AchOn = a7AchOn,
           alpha7GluOn = a7GluOn,
           achDrive = achD,
           gluDrive = gluD,
           poolDA = nextPoolDA,
           poolGABA = nextPoolGABA,
           gaba = gab,
           da = dop,
           direct = dir,
           indirect = ind \<rparr>)"

subsection \<open>The component state and its handlers\<close>

datatype Preset = Puff | Repetido | Abstinencia

text \<open>One element of the \<^verbatim>\<open>trace\<close> array; the fields are \<^verbatim>\<open>t, da, gaba, nic, desAll, puff\<close>.\<close>

record TracePoint =
  tp_t :: real
  tp_da :: real
  tp_gaba :: real
  tp_nic :: real
  tp_desAll :: real
  tp_puff :: bool

text \<open>
  The \<^verbatim>\<open>useState\<close> cells of the component that the handlers below read or write, each under
  its name with the prefix \<open>st_\<close>. A handler's sequence of setter calls is one record update.
\<close>

record SimState =
  st_nicotine :: real
  st_poolDA :: ReceptorPool
  st_poolGABA :: ReceptorPool
  st_alpha7AchOn :: bool
  st_alpha7GluOn :: bool
  st_achDrive :: real
  st_gluDrive :: real
  st_gaba :: real
  st_da :: real
  st_direct :: real
  st_indirect :: real
  st_puffsPerMin :: real
  st_preset :: Preset
  st_simMin :: real
  st_trace :: "TracePoint list"

text \<open>The initial values of the \<^verbatim>\<open>useState\<close> cells.\<close>

definition initialState :: SimState where
  "initialState =
     \<lparr> st_nicotine = 0,
       st_poolDA = \<lparr> basal = 1, activado = 0, desens = 0 \<rparr>,
       st_poolGABA = \<lparr> basal = 1, activado = 0, desens = 0 \<rparr>,
       st_alpha7AchOn = False,
       st_alpha7GluOn = False,
       st_achDrive = 35 / 100,
       st_gluDrive = 3 / 10,
       st_gaba = 1 / 2,
       st_da = 2 / 10,
       st_direct = 2 / 10,
       st_indirect = 2 / 10,
       st_puffsPerMin = 0,
       st_preset = Puff,
       st_simMin = 0,
       st_trace = [] \<rparr>"

definition resetTimeline :: "SimState \<Rightarrow> SimState" where
  "resetTimeline s = s\<lparr> st_trace := [], st_simMin := 0 \<rparr>"

definition applyPreset :: "Preset \<Rightarrow> SimState \<Rightarrow> SimState" where
  "applyPreset p s0 =
     (let s = resetTimeline s0;
          s = s\<lparr> st_preset := p \<rparr>;
          s = (if p = Puff then
                 s\<lparr> st_puffsPerMin := 0, st_nicotine := 0,
                    st_poolDA := \<lparr> basal = 1, activado = 0, desens = 0 \<rparr>,
                    st_poolGABA := \<lparr> basal = 1, activado = 0, desens = 0 \<rparr> \<rparr>
               else s);
          s = (if p = Repetido then
                 s\<lparr> st_puffsPerMin := 18 / 100, st_nicotine := 0,
                    st_poolDA := \<lparr> basal = 1, activado = 0, desens = 0 \<rparr>,
                    st_poolGABA := \<lparr> basal = 1, activado = 0, desens = 0 \<rparr> \<rparr>
               else s);
          s = (if p = Abstinencia then
                 s\<lparr> st_puffsPerMin := 0, st_nicotine := 2 / 100,
                    st_poolDA := normalizePool \<lparr> basal = 35 / 100, activado = 5 / 100, desens = 6 / 10 \<rparr>,
                    st_poolGABA := normalizePool \<lparr> basal = 4 / 10, activado = 5 / 100, desens = 55 / 100 \<rparr> \<rparr>
               else s)
      in s)"

text \<open>The eleven setter calls that \<^verbatim>\<open>doPuff\<close>, \<^verbatim>\<open>advance60\<close> and \<^verbatim>\<open>tick\<close> share.\<close>

definition storeOut :: "ModelOut \<Rightarrow> SimState \<Rightarrow> SimState" where
  "storeOut out s =
     s\<lparr> st_nicotine := nicotine out,
        st_poolDA := poolDA out,
        st_poolGABA := poolGABA out,
        st_alpha7AchOn := alpha7AchOn out,
        st_alpha7GluOn := alpha7GluOn out,
        st_achDrive := achDrive out,
        st_gluDrive := gluDrive out,
        st_gaba := gaba out,
        st_da := da out,
        st_direct := direct out,
        st_indirect := indirect out \<rparr>"


text \<open>The local variables of \<^verbatim>\<open>advance60\<close>: \<^verbatim>\<open>nic, pDA, pG, t, newTrace, out\<close>.\<close>

record Advance60Vars =
  v_nic :: real
  v_pDA :: ReceptorPool
  v_pG :: ReceptorPool
  v_t :: real
  v_newTrace :: "TracePoint list"
  v_out :: "ModelOut option"

text \<open>One pass through the body of the \<^verbatim>\<open>for\<close> loop of \<^verbatim>\<open>advance60\<close>.\<close>

definition advance60Body :: "ModelParams \<Rightarrow> Advance60Vars \<Rightarrow> Advance60Vars" where
  "advance60Body params v =
     (let out = stepModel 1 (v_nic v) (v_pDA v) (v_pG v) False params;
          nic = nicotine out;
          pDA = poolDA out;
          pG = poolGABA out;
          t = v_t v + 1;
          desAll = clamp01 ((1 / 2) * desens (poolDA out) + (1 / 2) * desens (poolGABA out))
      in \<lparr> v_nic = nic, v_pDA = pDA, v_pG = pG, v_t = t,
           v_newTrace = v_newTrace v @
             [\<lparr> tp_t = t, tp_da = da out, tp_gaba = gaba out, tp_nic = nicotine out,
                tp_desAll = desAll, tp_puff = True \<rparr>],
           v_out = Some out \<rparr>)"

text \<open>The loop \<^verbatim>\<open>for (let i = 0; i < 60; i++)\<close>, by the number of passes still to run.\<close>

fun advance60Loop :: "nat \<Rightarrow> ModelParams \<Rightarrow> Advance60Vars \<Rightarrow> Advance60Vars" where
  "advance60Loop 0 params v = v"
| "advance60Loop (Suc n) params v = advance60Loop n params (advance60Body params v)"

definition advance60Init :: "SimState \<Rightarrow> Advance60Vars" where
  "advance60Init s =
     \<lparr> v_nic = st_nicotine s, v_pDA = st_poolDA s, v_pG = st_poolGABA s, v_t = st_simMin s,
       v_newTrace = [], v_out = None \<rparr>"

text \<open>\<^verbatim>\<open>xs.slice(-n)\<close>: the last \<open>n\<close> elements, all of \<open>xs\<close> when it has fewer.\<close>

definition sliceLast :: "nat \<Rightarrow> 'a list \<Rightarrow> 'a list" where
  "sliceLast n xs = drop (length xs - n) xs"

definition advance60 :: "ModelParams \<Rightarrow> SimState \<Rightarrow> SimState" where
  "advance60 params s =
     (let v = advance60Loop 60 params (advance60Init s) in
      case v_out v of
        None \<Rightarrow> s
      | Some out \<Rightarrow>
          (storeOut out s)
            \<lparr> st_nicotine := v_nic v, st_poolDA := v_pDA v, st_poolGABA := v_pG v,
              st_simMin := v_t v,
              st_trace := sliceLast 900 (st_trace s @ v_newTrace v) \<rparr>)"

text \<open>
  The body of \<^verbatim>\<open>tick\<close> after the time delta \<^verbatim>\<open>dtMin\<close> and the outcome \<^verbatim>\<open>puffNow\<close> of the
  random draw are known; both are arguments here. The new trace is the old one with the
  new point appended, filtered against \<^verbatim>\<open>next.at(-1)?.t ?? 0\<close>: the \<^verbatim>\<open>t\<close> of its last
  element, and 0 for an empty array.
\<close>

definition tick :: "real \<Rightarrow> bool \<Rightarrow> ModelParams \<Rightarrow> SimState \<Rightarrow> SimState" where
  "tick dtMin puffNow params s =
     (let out = stepModel dtMin (st_nicotine s) (st_poolDA s) (st_poolGABA s) puffNow params;
          t = st_simMin s + dtMin;
          desAll = clamp01 ((1 / 2) * desens (poolDA out) + (1 / 2) * desens (poolGABA out));
          next = st_trace s @
            [\<lparr> tp_t = t, tp_da = da out, tp_gaba = gaba out, tp_nic = nicotine out,
               tp_desAll = desAll, tp_puff = puffNow \<rparr>];
          tMax = (if next = [] then 0 else tp_t (last next))
      in (storeOut out s)
           \<lparr> st_simMin := st_simMin s + dtMin,
             st_trace := filter (\<lambda>p. tp_t p \<ge> tMax - 60) next \<rparr>)"


subsection \<open>Notions used by the properties\<close>

text \<open>
  One unit-minute step without a puff, on the three values that the loop of \<^verbatim>\<open>advance60\<close>
  carries from one pass to the next: nicotine and the two pools. Sixty sequential steps
  are \<open>unitMinuteStep params ^^ 60\<close>.
\<close>

definition unitMinuteStep ::
  "ModelParams \<Rightarrow> real \<times> ReceptorPool \<times> ReceptorPool \<Rightarrow> real \<times> ReceptorPool \<times> ReceptorPool" where
  "unitMinuteStep params x =
     (case x of (nic, pDA, pG) \<Rightarrow>
        (nicotine (stepModel 1 nic pDA pG False params),
         poolDA (stepModel 1 nic pDA pG False params),
         poolGABA (stepModel 1 nic pDA pG False params)))"

text \<open>The array \<^verbatim>\<open>newTrace\<close> of \<^verbatim>\<open>advance60\<close> when its loop has ended.\<close>

definition advance60Points :: "ModelParams \<Rightarrow> SimState \<Rightarrow> TracePoint list" where
  "advance60Points params s = v_newTrace (advance60Loop 60 params (advance60Init s))"

text \<open>
  The loop variables of \<^verbatim>\<open>advance60\<close> while nicotine is at most 0.02 and both pools are
  normalised: the invariant of the loop when it starts from the abstinence preset.
\<close>

definition lowNicotine :: "Advance60Vars \<Rightarrow> bool" where
  "lowNicotine v \<longleftrightarrow>
     0 \<le> v_nic v \<and> v_nic v \<le> 2 / 100
     \<and> basal (v_pDA v) + activado (v_pDA v) + desens (v_pDA v) = 1
     \<and> basal (v_pG v) + activado (v_pG v) + desens (v_pG v) = 1"

section \<open>Properties\<close>

subsection \<open>Clamping and normalisation\<close>

lemma clamp01_ge0: "0 \<le> clamp01 x"
  by (simp add: clamp01_def)

lemma clamp01_le1: "clamp01 x \<le> 1"
  by (simp add: clamp01_def)

lemma clamp01_id: "0 \<le> x \<Longrightarrow> x \<le> 1 \<Longrightarrow> clamp01 x = x"
  by (simp add: clamp01_def)

lemma clamp01_mono: "x \<le> y \<Longrightarrow> clamp01 x \<le> clamp01 y"
  by (simp add: clamp01_def)


lemma normalizePool_sum:
  "basal (normalizePool p) + activado (normalizePool p) + desens (normalizePool p) = 1"
proof (cases "basal p + activado p + desens p \<le> 0")
  case True
  then show ?thesis by (simp add: normalizePool_def)
next
  case False
  define s where "s = basal p + activado p + desens p"
  from False have pos: "s \<noteq> 0" by (simp add: s_def)
  have "basal p / s + activado p / s + desens p / s = (basal p + activado p + desens p) / s"
    by (simp add: add_divide_distrib)
  also have "\<dots> = 1" using pos by (simp add: s_def)
  finally show ?thesis using False by (simp add: normalizePool_def Let_def s_def)
qed

lemma normalizePool_reset:
  "basal p + activado p + desens p \<le> 0 \<Longrightarrow>
   normalizePool p = \<lparr> basal = 1, activado = 0, desens = 0 \<rparr>"
  by (simp add: normalizePool_def)

lemma normalizePool_unit:
  "basal p + activado p + desens p = 1 \<Longrightarrow> normalizePool p = p"
  by (simp add: normalizePool_def)

subsection \<open>The three fluxes\<close>

text \<open>
  The fields of the pool before normalisation, with \<open>A\<close>, \<open>D\<close> and \<open>K\<close> the shares of the
  source fraction that activation, desensitisation and recovery move in one step.
\<close>

lemma alpha4b2Fluxes_fields:
  fixes dtMin nic pool params r
  defines "A \<equiv> (if nic > actThreshold params
                 then (25 / 100) * clamp01 ((nic - actThreshold params) / (1 - actThreshold params))
                 else 0) * dtMin"
    and "D \<equiv> (if nic > actThreshold params then r else 0) * dtMin"
    and "K \<equiv> (if nic < actThreshold params * (9 / 10)
                 then 1 / max 1 (desensWindowMin params)
                 else 1 / max 1 (desensWindowMin params) * (35 / 100)) * dtMin"
  shows "basal (alpha4b2Fluxes dtMin nic pool params r) =
           basal pool * (1 - A) + (desens pool + (activado pool + basal pool * A) * D) * K"
    and "activado (alpha4b2Fluxes dtMin nic pool params r) =
           (activado pool + basal pool * A) * (1 - D)"
    and "desens (alpha4b2Fluxes dtMin nic pool params r) =
           (desens pool + (activado pool + basal pool * A) * D) * (1 - K)"
  unfolding A_def D_def K_def
  by (simp_all add: alpha4b2Fluxes_def Let_def algebra_simps)

lemma alpha4b2Fluxes_sum:
  "basal (alpha4b2Fluxes dtMin nic pool params r) + activado (alpha4b2Fluxes dtMin nic pool params r)
     + desens (alpha4b2Fluxes dtMin nic pool params r)
   = basal pool + activado pool + desens pool"
  by (simp add: alpha4b2Fluxes_fields algebra_simps)



text \<open>
  C1. Every pool that \<^verbatim>\<open>normalizePool\<close> returns has fractions that sum to 1, and a pool
  whose sum is not positive is replaced by the pure basal pool. The same holds of
  \<^verbatim>\<open>stepAlpha4b2\<close>, for a non-negative time delta, nicotine in \<open>[0,1]\<close>, any pool, any
  parameters and any desensitisation rate, the raw sum being that of the pool after the
  three fluxes.
\<close>

theorem pool_sum_invariant:
  "basal (normalizePool p) + activado (normalizePool p) + desens (normalizePool p) = 1
   \<and> (basal p + activado p + desens p \<le> 0 \<longrightarrow>
        normalizePool p = \<lparr> basal = 1, activado = 0, desens = 0 \<rparr>)
   \<and> (0 \<le> dtMin \<and> 0 \<le> nic \<and> nic \<le> 1 \<longrightarrow>
        basal (stepAlpha4b2 dtMin nic pool params r) + activado (stepAlpha4b2 dtMin nic pool params r)
          + desens (stepAlpha4b2 dtMin nic pool params r) = 1
        \<and> (basal (alpha4b2Fluxes dtMin nic pool params r)
              + activado (alpha4b2Fluxes dtMin nic pool params r)
              + desens (alpha4b2Fluxes dtMin nic pool params r) \<le> 0 \<longrightarrow>
            stepAlpha4b2 dtMin nic pool params r = \<lparr> basal = 1, activado = 0, desens = 0 \<rparr>))"
  by (simp add: normalizePool_sum normalizePool_reset stepAlpha4b2_def)

theorem pool_sum_invariant_witness:
  "basal \<lparr> basal = 0, activado = 0, desens = 0 \<rparr> + activado \<lparr> basal = 0, activado = 0, desens = 0 \<rparr>
     + desens \<lparr> basal = 0, activado = 0, desens = 0 \<rparr> \<le> 0
   \<and> normalizePool \<lparr> basal = 0, activado = 0, desens = 0 \<rparr> = \<lparr> basal = 1, activado = 0, desens = 0 \<rparr>
   \<and> (0::real) \<le> 1 \<and> (0::real) \<le> 1 / 2 \<and> (1 / 2 :: real) \<le> 1
   \<and> basal (alpha4b2Fluxes 1 (1 / 2) \<lparr> basal = 0, activado = 0, desens = 0 \<rparr> DEFAULT_PARAMS (3 / 100))
       + activado (alpha4b2Fluxes 1 (1 / 2) \<lparr> basal = 0, activado = 0, desens = 0 \<rparr> DEFAULT_PARAMS (3 / 100))
       + desens (alpha4b2Fluxes 1 (1 / 2) \<lparr> basal = 0, activado = 0, desens = 0 \<rparr> DEFAULT_PARAMS (3 / 100)) \<le> 0
   \<and> stepAlpha4b2 1 (1 / 2) \<lparr> basal = 0, activado = 0, desens = 0 \<rparr> DEFAULT_PARAMS (3 / 100)
       = \<lparr> basal = 1, activado = 0, desens = 0 \<rparr>
   \<and> basal (stepAlpha4b2 1 (1 / 2) \<lparr> basal = 0, activado = 0, desens = 0 \<rparr> DEFAULT_PARAMS (3 / 100))
       + activado (stepAlpha4b2 1 (1 / 2) \<lparr> basal = 0, activado = 0, desens = 0 \<rparr> DEFAULT_PARAMS (3 / 100))
       + desens (stepAlpha4b2 1 (1 / 2) \<lparr> basal = 0, activado = 0, desens = 0 \<rparr> DEFAULT_PARAMS (3 / 100)) = 1
   \<and> basal (stepAlpha4b2 1 (1 / 2) \<lparr> basal = 35 / 100, activado = 5 / 100, desens = 6 / 10 \<rparr> DEFAULT_PARAMS (3 / 100))
       + activado (stepAlpha4b2 1 (1 / 2) \<lparr> basal = 35 / 100, activado = 5 / 100, desens = 6 / 10 \<rparr> DEFAULT_PARAMS (3 / 100))
       + desens (stepAlpha4b2 1 (1 / 2) \<lparr> basal = 35 / 100, activado = 5 / 100, desens = 6 / 10 \<rparr> DEFAULT_PARAMS (3 / 100)) = 1"
  using pool_sum_invariant [of "\<lparr> basal = 0, activado = 0, desens = 0 \<rparr>" 1 "1 / 2"
      "\<lparr> basal = 0, activado = 0, desens = 0 \<rparr>" DEFAULT_PARAMS "3 / 100"]
    pool_sum_invariant [of "\<lparr> basal = 0, activado = 0, desens = 0 \<rparr>" 1 "1 / 2"
      "\<lparr> basal = 35 / 100, activado = 5 / 100, desens = 6 / 10 \<rparr>" DEFAULT_PARAMS "3 / 100"]
  by (simp add: alpha4b2Fluxes_sum)


subsection \<open>The step function\<close>

lemma stepModel_fields:
  "0 \<le> nicotine (stepModel dt n a g pf ps)" "nicotine (stepModel dt n a g pf ps) \<le> 1"
  "0 \<le> gaba (stepModel dt n a g pf ps)" "gaba (stepModel dt n a g pf ps) \<le> 1"
  "0 \<le> da (stepModel dt n a g pf ps)" "da (stepModel dt n a g pf ps) \<le> 1"
  "0 \<le> direct (stepModel dt n a g pf ps)" "direct (stepModel dt n a g pf ps) \<le> 1"
  "0 \<le> indirect (stepModel dt n a g pf ps)" "indirect (stepModel dt n a g pf ps) \<le> 1"
  "0 \<le> achDrive (stepModel dt n a g pf ps)" "achDrive (stepModel dt n a g pf ps) \<le> 1"
  "0 \<le> gluDrive (stepModel dt n a g pf ps)" "gluDrive (stepModel dt n a g pf ps) \<le> 1"
  by (simp_all add: stepModel_def Let_def clamp01_ge0 clamp01_le1)

lemma stepModel_nicotine:
  "nicotine (stepModel dt n a g pf ps) =
     clamp01 ((if pf then clamp01 (n + 25 / 100) else n) * (1 / 2) powr (dt / nicotineHalfLifeMin ps))"
  by (simp add: stepModel_def Let_def)

lemma stepModel_poolDA:
  "poolDA (stepModel dt n a g pf ps) =
     stepAlpha4b2 dt (nicotine (stepModel dt n a g pf ps)) a ps (desensRateDA ps)"
  by (simp add: stepModel_def Let_def)

lemma stepModel_poolGABA:
  "poolGABA (stepModel dt n a g pf ps) =
     stepAlpha4b2 dt (nicotine (stepModel dt n a g pf ps)) g ps (desensRateGABA ps)"
  by (simp add: stepModel_def Let_def)

lemma indirect_floor: "15 / 100 \<le> indirect (stepModel dt n a g pf ps)"
proof -
  define gab where "gab = gaba (stepModel dt n a g pf ps)"
  have ind: "indirect (stepModel dt n a g pf ps) = clamp01 (15 / 100 + (9 / 10) * (1 - gab))"
    by (simp add: stepModel_def Let_def gab_def)
  have "gab \<le> 1" by (simp add: gab_def stepModel_fields)
  then have "(15 / 100 :: real) \<le> 15 / 100 + (9 / 10) * (1 - gab)" by simp
  then have "clamp01 (15 / 100) \<le> clamp01 (15 / 100 + (9 / 10) * (1 - gab))"
    by (rule clamp01_mono)
  then show ?thesis by (simp add: ind clamp01_id)
qed

lemma da_floor: "1525 / 10000 \<le> da (stepModel dt n a g pf ps)"
proof -
  define dir where "dir = direct (stepModel dt n a g pf ps)"
  define ind where "ind = indirect (stepModel dt n a g pf ps)"
  have d: "da (stepModel dt n a g pf ps) = clamp01 (1 / 10 + (75 / 100) * dir + (35 / 100) * ind)"
    by (simp add: stepModel_def Let_def dir_def ind_def)
  have "0 \<le> dir" by (simp add: dir_def stepModel_fields)
  moreover have "15 / 100 \<le> ind" unfolding ind_def by (rule indirect_floor)
  ultimately have "(1525 / 10000 :: real) \<le> 1 / 10 + (75 / 100) * dir + (35 / 100) * ind" by simp
  then have "clamp01 (1525 / 10000) \<le> clamp01 (1 / 10 + (75 / 100) * dir + (35 / 100) * ind)"
    by (rule clamp01_mono)
  then show ?thesis by (simp add: d clamp01_id)
qed

text \<open>
  C5. For every time delta \<open>dtMin \<ge> 0\<close>, every previous nicotine level and pair of pools,
  either value of \<^verbatim>\<open>puffNow\<close> and every parameter set (with a positive half-life), the
  outputs \<^verbatim>\<open>nicotine\<close>, \<^verbatim>\<open>gaba\<close>, \<^verbatim>\<open>da\<close>, \<^verbatim>\<open>direct\<close>, \<^verbatim>\<open>indirect\<close>, \<^verbatim>\<open>achDrive\<close> and \<^verbatim>\<open>gluDrive\<close> of
  \<^verbatim>\<open>stepModel\<close> all lie in \<open>[0,1]\<close>.
\<close>

theorem stepModel_outputs_unit_interval:
  assumes "0 \<le> dtMin" and "0 < nicotineHalfLifeMin params"
  shows "0 \<le> nicotine (stepModel dtMin n a g pf params) \<and> nicotine (stepModel dtMin n a g pf params) \<le> 1
       \<and> 0 \<le> gaba (stepModel dtMin n a g pf params) \<and> gaba (stepModel dtMin n a g pf params) \<le> 1
       \<and> 0 \<le> da (stepModel dtMin n a g pf params) \<and> da (stepModel dtMin n a g pf params) \<le> 1
       \<and> 0 \<le> direct (stepModel dtMin n a g pf params) \<and> direct (stepModel dtMin n a g pf params) \<le> 1
       \<and> 0 \<le> indirect (stepModel dtMin n a g pf params) \<and> indirect (stepModel dtMin n a g pf params) \<le> 1
       \<and> 0 \<le> achDrive (stepModel dtMin n a g pf params) \<and> achDrive (stepModel dtMin n a g pf params) \<le> 1
       \<and> 0 \<le> gluDrive (stepModel dtMin n a g pf params) \<and> gluDrive (stepModel dtMin n a g pf params) \<le> 1"
  by (simp add: stepModel_fields)

theorem stepModel_outputs_unit_interval_witness:
  "(0::real) \<le> 1 \<and> 0 < nicotineHalfLifeMin DEFAULT_PARAMS
       \<and> 0 \<le> nicotine (stepModel 1 (1 / 2) \<lparr> basal = 35 / 100, activado = 5 / 100, desens = 6 / 10 \<rparr> \<lparr> basal = 4 / 10, activado = 5 / 100, desens = 55 / 100 \<rparr> True DEFAULT_PARAMS) \<and> nicotine (stepModel 1 (1 / 2) \<lparr> basal = 35 / 100, activado = 5 / 100, desens = 6 / 10 \<rparr> \<lparr> basal = 4 / 10, activado = 5 / 100, desens = 55 / 100 \<rparr> True DEFAULT_PARAMS) \<le> 1
       \<and> 0 \<le> gaba (stepModel 1 (1 / 2) \<lparr> basal = 35 / 100, activado = 5 / 100, desens = 6 / 10 \<rparr> \<lparr> basal = 4 / 10, activado = 5 / 100, desens = 55 / 100 \<rparr> True DEFAULT_PARAMS) \<and> gaba (stepModel 1 (1 / 2) \<lparr> basal = 35 / 100, activado = 5 / 100, desens = 6 / 10 \<rparr> \<lparr> basal = 4 / 10, activado = 5 / 100, desens = 55 / 100 \<rparr> True DEFAULT_PARAMS) \<le> 1
       \<and> 0 \<le> da (stepModel 1 (1 / 2) \<lparr> basal = 35 / 100, activado = 5 / 100, desens = 6 / 10 \<rparr> \<lparr> basal = 4 / 10, activado = 5 / 100, desens = 55 / 100 \<rparr> True DEFAULT_PARAMS) \<and> da (stepModel 1 (1 / 2) \<lparr> basal = 35 / 100, activado = 5 / 100, desens = 6 / 10 \<rparr> \<lparr> basal = 4 / 10, activado = 5 / 100, desens = 55 / 100 \<rparr> True DEFAULT_PARAMS) \<le> 1
       \<and> 0 \<le> direct (stepModel 1 (1 / 2) \<lparr> basal = 35 / 100, activado = 5 / 100, desens = 6 / 10 \<rparr> \<lparr> basal = 4 / 10, activado = 5 / 100, desens = 55 / 100 \<rparr> True DEFAULT_PARAMS) \<and> direct (stepModel 1 (1 / 2) \<lparr> basal = 35 / 100, activado = 5 / 100, desens = 6 / 10 \<rparr> \<lparr> basal = 4 / 10, activado = 5 / 100, desens = 55 / 100 \<rparr> True DEFAULT_PARAMS) \<le> 1
       \<and> 0 \<le> indirect (stepModel 1 (1 / 2) \<lparr> basal = 35 / 100, activado = 5 / 100, desens = 6 / 10 \<rparr> \<lparr> basal = 4 / 10, activado = 5 / 100, desens = 55 / 100 \<rparr> True DEFAULT_PARAMS) \<and> indirect (stepModel 1 (1 / 2) \<lparr> basal = 35 / 100, activado = 5 / 100, desens = 6 / 10 \<rparr> \<lparr> basal = 4 / 10, activado = 5 / 100, desens = 55 / 100 \<rparr> True DEFAULT_PARAMS) \<le> 1
       \<and> 0 \<le> achDrive (stepModel 1 (1 / 2) \<lparr> basal = 35 / 100, activado = 5 / 100, desens = 6 / 10 \<rparr> \<lparr> basal = 4 / 10, activado = 5 / 100, desens = 55 / 100 \<rparr> True DEFAULT_PARAMS) \<and> achDrive (stepModel 1 (1 / 2) \<lparr> basal = 35 / 100, activado = 5 / 100, desens = 6 / 10 \<rparr> \<lparr> basal = 4 / 10, activado = 5 / 100, desens = 55 / 100 \<rparr> True DEFAULT_PARAMS) \<le> 1
       \<and> 0 \<le> gluDrive (stepModel 1 (1 / 2) \<lparr> basal = 35 / 100, activado = 5 / 100, desens = 6 / 10 \<rparr> \<lparr> basal = 4 / 10, activado = 5 / 100, desens = 55 / 100 \<rparr> True DEFAULT_PARAMS) \<and> gluDrive (stepModel 1 (1 / 2) \<lparr> basal = 35 / 100, activado = 5 / 100, desens = 6 / 10 \<rparr> \<lparr> basal = 4 / 10, activado = 5 / 100, desens = 55 / 100 \<rparr> True DEFAULT_PARAMS) \<le> 1"
  using stepModel_outputs_unit_interval [of 1 DEFAULT_PARAMS "1 / 2"
      "\<lparr> basal = 35 / 100, activado = 5 / 100, desens = 6 / 10 \<rparr>"
      "\<lparr> basal = 4 / 10, activado = 5 / 100, desens = 55 / 100 \<rparr>" True]
  by (simp add: DEFAULT_PARAMS_def)

text \<open>
  C10. For every time delta \<open>dtMin \<ge> 0\<close>, every previous state, either value of
  \<^verbatim>\<open>puffNow\<close> and every parameter set (with a positive half-life), \<^verbatim>\<open>stepModel\<close> returns
  \<open>indirect \<ge> 0.15\<close> and \<open>da \<ge> 0.1525\<close>; the dopamine output is never 0.
\<close>

theorem dopamine_floor:
  assumes "0 \<le> dtMin" and "0 < nicotineHalfLifeMin params"
  shows "15 / 100 \<le> indirect (stepModel dtMin n a g pf params)
       \<and> 1525 / 10000 \<le> da (stepModel dtMin n a g pf params)
       \<and> 0 < da (stepModel dtMin n a g pf params)"
proof -
  have i: "15 / 100 \<le> indirect (stepModel dtMin n a g pf params)" by (rule indirect_floor)
  have d: "1525 / 10000 \<le> da (stepModel dtMin n a g pf params)" by (rule da_floor)
  from d have "0 < da (stepModel dtMin n a g pf params)" by linarith
  with i d show ?thesis by blast
qed

theorem dopamine_floor_witness:
  "(0::real) \<le> 1 \<and> 0 < nicotineHalfLifeMin DEFAULT_PARAMS
   \<and> 15 / 100 \<le> indirect (stepModel 1 (1 / 2) \<lparr> basal = 35 / 100, activado = 5 / 100, desens = 6 / 10 \<rparr> \<lparr> basal = 4 / 10, activado = 5 / 100, desens = 55 / 100 \<rparr> True DEFAULT_PARAMS)
   \<and> 1525 / 10000 \<le> da (stepModel 1 (1 / 2) \<lparr> basal = 35 / 100, activado = 5 / 100, desens = 6 / 10 \<rparr> \<lparr> basal = 4 / 10, activado = 5 / 100, desens = 55 / 100 \<rparr> True DEFAULT_PARAMS)
   \<and> 0 < da (stepModel 1 (1 / 2) \<lparr> basal = 35 / 100, activado = 5 / 100, desens = 6 / 10 \<rparr> \<lparr> basal = 4 / 10, activado = 5 / 100, desens = 55 / 100 \<rparr> True DEFAULT_PARAMS)"
  using dopamine_floor [of 1 DEFAULT_PARAMS "1 / 2"
      "\<lparr> basal = 35 / 100, activado = 5 / 100, desens = 6 / 10 \<rparr>"
      "\<lparr> basal = 4 / 10, activado = 5 / 100, desens = 55 / 100 \<rparr>" True]
  by (simp add: DEFAULT_PARAMS_def)

text \<open>
  C7. For every starting nicotine level in \<open>[0,1]\<close> (and a positive half-life), one step
  without a puff whose time delta is \<^verbatim>\<open>nicotineHalfLifeMin\<close> returns half the starting level.
\<close>

theorem nicotine_half_life:
  assumes "0 \<le> n" and "n \<le> 1" and "0 < nicotineHalfLifeMin params"
  shows "nicotine (stepModel (nicotineHalfLifeMin params) n a g False params) = n / 2"
proof -
  from assms(3) have "nicotineHalfLifeMin params / nicotineHalfLifeMin params = 1" by simp
  then have "nicotine (stepModel (nicotineHalfLifeMin params) n a g False params) = clamp01 (n * (1 / 2))"
    by (simp add: stepModel_nicotine)
  also have "\<dots> = n / 2" using assms(1,2) by (simp add: clamp01_id)
  finally show ?thesis .
qed

theorem nicotine_half_life_witness:
  "(0::real) \<le> 8 / 10 \<and> (8 / 10 :: real) \<le> 1 \<and> 0 < nicotineHalfLifeMin DEFAULT_PARAMS
   \<and> nicotine (stepModel 120 (8 / 10) \<lparr> basal = 1, activado = 0, desens = 0 \<rparr> \<lparr> basal = 1, activado = 0, desens = 0 \<rparr> False DEFAULT_PARAMS) = 4 / 10"
  using nicotine_half_life [of "8 / 10" DEFAULT_PARAMS "\<lparr> basal = 1, activado = 0, desens = 0 \<rparr>" "\<lparr> basal = 1, activado = 0, desens = 0 \<rparr>"]
  by (simp add: DEFAULT_PARAMS_def)



subsection \<open>Non-negative fractions\<close>

lemma normalizePool_nonneg:
  assumes "0 \<le> basal p" and "0 \<le> activado p" and "0 \<le> desens p"
  shows "0 \<le> basal (normalizePool p) \<and> 0 \<le> activado (normalizePool p) \<and> 0 \<le> desens (normalizePool p)"
  using assms by (simp add: normalizePool_def Let_def)

text \<open>
  C6, as the spec states it, fails: \<^verbatim>\<open>stepAlpha4b2\<close> has no clamp on its transfer terms.
  With the default parameters, nicotine 1 and \<open>dtMin = 10\<close>, activation takes 2.5 times the
  basal fraction of the pure basal pool, and the basal fraction is \<open>-173/120\<close> before and
  after normalisation.
\<close>

theorem stepAlpha4b2_negative_counterexample:
  "basal (alpha4b2Fluxes 10 1 \<lparr> basal = 1, activado = 0, desens = 0 \<rparr> DEFAULT_PARAMS (3 / 100)) = - (173 / 120)
   \<and> basal (stepAlpha4b2 10 1 \<lparr> basal = 1, activado = 0, desens = 0 \<rparr> DEFAULT_PARAMS (3 / 100)) = - (173 / 120)
   \<and> basal (stepAlpha4b2 10 1 \<lparr> basal = 1, activado = 0, desens = 0 \<rparr> DEFAULT_PARAMS (3 / 100)) < 0"
  by (simp add: stepAlpha4b2_def normalizePool_def alpha4b2Fluxes_def Let_def DEFAULT_PARAMS_def
      clamp01_def)

text \<open>
  C6, as the code has it. For \<open>dtMin \<ge> 0\<close>, nicotine in \<open>[0,1]\<close>, a pool with non-negative
  fractions and a non-negative desensitisation rate, no fraction is negative before or
  after normalisation when no flux can take more than its source fraction in one step:
  \<open>dtMin \<le> 4\<close> (activation, whose rate is at most 0.25), \<open>desensRate * dtMin \<le> 1\<close> and
  \<open>dtMin \<le> max 1 desensWindowMin\<close> (recovery, whose rate is at most
  \<open>1 / max 1 desensWindowMin\<close>).
\<close>

theorem stepAlpha4b2_nonneg:
  assumes dt: "0 \<le> dtMin" and nic: "0 \<le> nic" "nic \<le> 1"
    and pool: "0 \<le> basal pool" "0 \<le> activado pool" "0 \<le> desens pool"
    and rate: "0 \<le> r"
    and act: "dtMin \<le> 4"
    and des: "r * dtMin \<le> 1"
    and recov: "dtMin \<le> max 1 (desensWindowMin params)"
  shows "0 \<le> basal (alpha4b2Fluxes dtMin nic pool params r)
       \<and> 0 \<le> activado (alpha4b2Fluxes dtMin nic pool params r)
       \<and> 0 \<le> desens (alpha4b2Fluxes dtMin nic pool params r)
       \<and> 0 \<le> basal (stepAlpha4b2 dtMin nic pool params r)
       \<and> 0 \<le> activado (stepAlpha4b2 dtMin nic pool params r)
       \<and> 0 \<le> desens (stepAlpha4b2 dtMin nic pool params r)"
proof -
  define A where "A = (if nic > actThreshold params
                 then (25 / 100) * clamp01 ((nic - actThreshold params) / (1 - actThreshold params))
                 else 0) * dtMin"
  define D where "D = (if nic > actThreshold params then r else 0) * dtMin"
  define K where "K = (if nic < actThreshold params * (9 / 10)
                 then 1 / max 1 (desensWindowMin params)
                 else 1 / max 1 (desensWindowMin params) * (35 / 100)) * dtMin"
  define w where "w = max 1 (desensWindowMin params)"
  have A0: "0 \<le> A" using dt by (simp add: A_def clamp01_ge0)
  have "(25 / 100) * clamp01 ((nic - actThreshold params) / (1 - actThreshold params)) * dtMin
          \<le> (25 / 100) * 1 * dtMin"
    using dt clamp01_le1 [of "(nic - actThreshold params) / (1 - actThreshold params)"]
    by (intro mult_right_mono mult_left_mono) simp_all
  with act have A1: "A \<le> 1" by (simp add: A_def)
  have D0: "0 \<le> D" using dt rate by (simp add: D_def)
  have D1: "D \<le> 1" using des by (simp add: D_def)
  have w1: "1 \<le> w" by (simp add: w_def)
  have K0: "0 \<le> K" using dt w1 by (simp add: K_def w_def [symmetric])
  define q where "q = dtMin / w"
  have q0: "0 \<le> q" using dt w1 by (simp add: q_def)
  have q1: "q \<le> 1" using recov w1 by (simp add: q_def w_def [symmetric])
  have "q * (35 / 100) \<le> q * 1" using q0 by (intro mult_left_mono) simp_all
  with q1 have "q * (35 / 100) \<le> 1" by simp
  with q1 have K1: "K \<le> 1" by (simp add: K_def w_def [symmetric] q_def)
  have fb: "basal (alpha4b2Fluxes dtMin nic pool params r) =
           basal pool * (1 - A) + (desens pool + (activado pool + basal pool * A) * D) * K"
    and fa: "activado (alpha4b2Fluxes dtMin nic pool params r) =
           (activado pool + basal pool * A) * (1 - D)"
    and fd: "desens (alpha4b2Fluxes dtMin nic pool params r) =
           (desens pool + (activado pool + basal pool * A) * D) * (1 - K)"
    unfolding A_def D_def K_def by (rule alpha4b2Fluxes_fields)+
  have a1: "0 \<le> activado pool + basal pool * A" using pool A0 by simp
  have d1: "0 \<le> desens pool + (activado pool + basal pool * A) * D" using pool a1 D0 by simp
  have rb: "0 \<le> basal (alpha4b2Fluxes dtMin nic pool params r)"
    unfolding fb using pool A1 d1 K0 by simp
  have ra: "0 \<le> activado (alpha4b2Fluxes dtMin nic pool params r)"
    unfolding fa using a1 D1 by simp
  have rd: "0 \<le> desens (alpha4b2Fluxes dtMin nic pool params r)"
    unfolding fd using d1 K1 by simp
  from rb ra rd normalizePool_nonneg [OF rb ra rd] show ?thesis
    by (simp add: stepAlpha4b2_def)
qed

theorem stepAlpha4b2_nonneg_witness:
  "(0::real) \<le> 1 \<and> (1::real) \<le> 1
   \<and> 0 \<le> basal \<lparr> basal = 35 / 100, activado = 5 / 100, desens = 6 / 10 \<rparr>
   \<and> 0 \<le> activado \<lparr> basal = 35 / 100, activado = 5 / 100, desens = 6 / 10 \<rparr>
   \<and> 0 \<le> desens \<lparr> basal = 35 / 100, activado = 5 / 100, desens = 6 / 10 \<rparr>
   \<and> (0::real) \<le> 3 / 100 \<and> (1::real) \<le> 4 \<and> (3 / 100 :: real) * 1 \<le> 1
   \<and> 1 \<le> max 1 (desensWindowMin DEFAULT_PARAMS)
   \<and> 0 \<le> basal (alpha4b2Fluxes 1 1 \<lparr> basal = 35 / 100, activado = 5 / 100, desens = 6 / 10 \<rparr> DEFAULT_PARAMS (3 / 100))
   \<and> 0 \<le> activado (alpha4b2Fluxes 1 1 \<lparr> basal = 35 / 100, activado = 5 / 100, desens = 6 / 10 \<rparr> DEFAULT_PARAMS (3 / 100))
   \<and> 0 \<le> desens (alpha4b2Fluxes 1 1 \<lparr> basal = 35 / 100, activado = 5 / 100, desens = 6 / 10 \<rparr> DEFAULT_PARAMS (3 / 100))
   \<and> 0 \<le> basal (stepAlpha4b2 1 1 \<lparr> basal = 35 / 100, activado = 5 / 100, desens = 6 / 10 \<rparr> DEFAULT_PARAMS (3 / 100))
   \<and> 0 \<le> activado (stepAlpha4b2 1 1 \<lparr> basal = 35 / 100, activado = 5 / 100, desens = 6 / 10 \<rparr> DEFAULT_PARAMS (3 / 100))
   \<and> 0 \<le> desens (stepAlpha4b2 1 1 \<lparr> basal = 35 / 100, activado = 5 / 100, desens = 6 / 10 \<rparr> DEFAULT_PARAMS (3 / 100))"
  using stepAlpha4b2_nonneg [of 1 1 "\<lparr> basal = 35 / 100, activado = 5 / 100, desens = 6 / 10 \<rparr>" "3 / 100" DEFAULT_PARAMS]
  by (simp add: DEFAULT_PARAMS_def)

subsection \<open>The batch of sixty steps\<close>

lemma advance60Body_simps:
  "v_t (advance60Body ps v) = v_t v + 1"
  "v_out (advance60Body ps v) = Some (stepModel 1 (v_nic v) (v_pDA v) (v_pG v) False ps)"
  "(v_nic (advance60Body ps v), v_pDA (advance60Body ps v), v_pG (advance60Body ps v))
     = unitMinuteStep ps (v_nic v, v_pDA v, v_pG v)"
  "length (v_newTrace (advance60Body ps v)) = Suc (length (v_newTrace v))"
  "map tp_t (v_newTrace (advance60Body ps v)) = map tp_t (v_newTrace v) @ [v_t v + 1]"
  "map tp_puff (v_newTrace (advance60Body ps v)) = map tp_puff (v_newTrace v) @ [True]"
  by (simp_all add: advance60Body_def Let_def unitMinuteStep_def)

lemma advance60Loop_t: "v_t (advance60Loop n ps v) = v_t v + real n"
  by (induction n arbitrary: v) (simp_all add: advance60Body_simps)

lemma advance60Loop_length:
  "length (v_newTrace (advance60Loop n ps v)) = length (v_newTrace v) + n"
  by (induction n arbitrary: v) (simp_all add: advance60Body_simps)

lemma advance60Loop_triple:
  "(v_nic (advance60Loop n ps v), v_pDA (advance60Loop n ps v), v_pG (advance60Loop n ps v))
     = (unitMinuteStep ps ^^ n) (v_nic v, v_pDA v, v_pG v)"
proof (induction n arbitrary: v)
  case 0
  show ?case by simp
next
  case (Suc n)
  have "(v_nic (advance60Loop (Suc n) ps v), v_pDA (advance60Loop (Suc n) ps v),
         v_pG (advance60Loop (Suc n) ps v))
        = (unitMinuteStep ps ^^ n) (unitMinuteStep ps (v_nic v, v_pDA v, v_pG v))"
    using Suc.IH [of "advance60Body ps v"] by (simp add: advance60Body_simps(3))
  then show ?case by (simp add: funpow_swap1)
qed

lemma advance60Loop_times:
  "map tp_t (v_newTrace (advance60Loop n ps v))
     = map tp_t (v_newTrace v) @ map (\<lambda>i. v_t v + real i) [1..<Suc n]"
proof (induction n arbitrary: v)
  case 0
  show ?case by simp
next
  case (Suc n)
  have shift: "map (\<lambda>i. v_t v + 1 + real i) [1..<Suc n] = map (\<lambda>i. v_t v + real i) [2..<Suc (Suc n)]"
  proof -
    have "[2..<Suc (Suc n)] = map Suc [1..<Suc n]"
      by (simp add: map_Suc_upt numeral_2_eq_2)
    then show ?thesis by (simp add: comp_def add.assoc add.commute)
  qed
  have "[1..<Suc (Suc n)] = 1 # [2..<Suc (Suc n)]"
    by (simp add: upt_conv_Cons numeral_2_eq_2)
  then show ?case
    using Suc.IH [of "advance60Body ps v"] shift
    by (simp add: advance60Body_simps del: upt_Suc)
qed

lemma advance60Loop_puffs:
  "map tp_puff (v_newTrace (advance60Loop n ps v)) = map tp_puff (v_newTrace v) @ replicate n True"
proof (induction n arbitrary: v)
  case 0
  show ?case by simp
next
  case (Suc n)
  show ?case
    using Suc.IH [of "advance60Body ps v"]
    by (simp add: advance60Body_simps replicate_app_Cons_same)
qed

lemma advance60Loop_out: "\<exists>out. v_out (advance60Loop (Suc n) ps v) = Some out"
proof (induction n arbitrary: v)
  case 0
  show ?case by (simp add: advance60Body_simps)
next
  case (Suc n)
  show ?case using Suc.IH [of "advance60Body ps v"] by simp
qed

lemma advance60_fields:
  "st_nicotine (advance60 ps s) = v_nic (advance60Loop 60 ps (advance60Init s))"
  "st_poolDA (advance60 ps s) = v_pDA (advance60Loop 60 ps (advance60Init s))"
  "st_poolGABA (advance60 ps s) = v_pG (advance60Loop 60 ps (advance60Init s))"
  "st_simMin (advance60 ps s) = v_t (advance60Loop 60 ps (advance60Init s))"
  "st_trace (advance60 ps s) = sliceLast 900 (st_trace s @ advance60Points ps s)"
proof -
  have "\<exists>out. v_out (advance60Loop (Suc 59) ps (advance60Init s)) = Some out"
    by (rule advance60Loop_out)
  then obtain out where out: "v_out (advance60Loop 60 ps (advance60Init s)) = Some out"
    by auto
  show "st_nicotine (advance60 ps s) = v_nic (advance60Loop 60 ps (advance60Init s))"
    "st_poolDA (advance60 ps s) = v_pDA (advance60Loop 60 ps (advance60Init s))"
    "st_poolGABA (advance60 ps s) = v_pG (advance60Loop 60 ps (advance60Init s))"
    "st_simMin (advance60 ps s) = v_t (advance60Loop 60 ps (advance60Init s))"
    "st_trace (advance60 ps s) = sliceLast 900 (st_trace s @ advance60Points ps s)"
    using out
    by (simp_all add: advance60_def Let_def storeOut_def advance60Points_def
        del: advance60Loop.simps)
qed

lemma advance60Points_length: "length (advance60Points ps s) = 60"
  by (simp add: advance60Points_def advance60Loop_length advance60Init_def
      del: advance60Loop.simps)

lemma sliceLast_append: "length ys \<le> n \<Longrightarrow> sliceLast (length ys) (sliceLast n (xs @ ys)) = ys"
  by (simp add: sliceLast_def)

lemma sliceLast_length: "length (sliceLast n xs) \<le> n"
  by (simp add: sliceLast_def)

text \<open>
  C2. From every state, \<^verbatim>\<open>advance60\<close> leaves nicotine and the two pools as sixty sequential
  steps with \<open>dtMin = 1\<close> leave them, builds exactly sixty new trace points whose times are
  \<open>simMin + 1, \<dots>, simMin + 60\<close>, appends them to the trace (they are its last sixty
  elements), and sets \<^verbatim>\<open>simMin\<close> to its former value plus 60.
\<close>

theorem advance60_exact:
  "(st_nicotine (advance60 ps s), st_poolDA (advance60 ps s), st_poolGABA (advance60 ps s))
      = (unitMinuteStep ps ^^ 60) (st_nicotine s, st_poolDA s, st_poolGABA s)
   \<and> length (advance60Points ps s) = 60
   \<and> map tp_t (advance60Points ps s) = map (\<lambda>i. st_simMin s + real i) [1..<61]
   \<and> st_trace (advance60 ps s) = sliceLast 900 (st_trace s @ advance60Points ps s)
   \<and> sliceLast 60 (st_trace (advance60 ps s)) = advance60Points ps s
   \<and> st_simMin (advance60 ps s) = st_simMin s + 60"
proof -
  have len: "length (advance60Points ps s) = 60"
    by (rule advance60Points_length)
  have tri: "(st_nicotine (advance60 ps s), st_poolDA (advance60 ps s), st_poolGABA (advance60 ps s))
      = (unitMinuteStep ps ^^ 60) (st_nicotine s, st_poolDA s, st_poolGABA s)"
    using advance60Loop_triple [of 60 ps "advance60Init s"]
    by (simp add: advance60_fields advance60Init_def del: advance60Loop.simps)
  have times: "map tp_t (advance60Points ps s) = map (\<lambda>i. st_simMin s + real i) [1..<61]"
    using advance60Loop_times [of 60 ps "advance60Init s"]
    by (simp add: advance60Points_def advance60Init_def del: advance60Loop.simps upt_Suc)
  have last60: "sliceLast 60 (st_trace (advance60 ps s)) = advance60Points ps s"
    using sliceLast_append [of "advance60Points ps s" 900 "st_trace s"] len
    by (simp add: advance60_fields)
  have sim: "st_simMin (advance60 ps s) = st_simMin s + 60"
    by (simp add: advance60_fields advance60Loop_t advance60Init_def del: advance60Loop.simps)
  from len tri times last60 sim show ?thesis
    by (simp add: advance60_fields(5))
qed

lemma advance60Loop_no_nicotine:
  "v_nic v = 0 \<Longrightarrow> v_nic (advance60Loop n ps v) = 0"
proof (induction n arbitrary: v)
  case 0
  then show ?case by simp
next
  case (Suc n)
  have "v_nic (advance60Body ps v) = 0"
    using Suc.prems by (simp add: advance60Body_def Let_def stepModel_nicotine clamp01_def)
  then show ?case using Suc.IH by simp
qed

text \<open>
  C3. Every step of \<^verbatim>\<open>advance60\<close> runs with \<^verbatim>\<open>puffNow = false\<close>, yet every point it pushes is
  written with the literal \<^verbatim>\<open>puff: true\<close>. From the initial state and the default parameters
  the batch leaves sixty points, each recording a puff, while nicotine is still 0.
\<close>

theorem advance60_records_puff:
  "map tp_puff (st_trace (advance60 DEFAULT_PARAMS initialState)) = replicate 60 True
   \<and> st_nicotine (advance60 DEFAULT_PARAMS initialState) = 0"
proof -
  have "st_trace (advance60 DEFAULT_PARAMS initialState) = advance60Points DEFAULT_PARAMS initialState"
    by (simp add: advance60_fields initialState_def sliceLast_def advance60Points_length)
  moreover have "map tp_puff (advance60Points DEFAULT_PARAMS initialState) = replicate 60 True"
    using advance60Loop_puffs [of 60 DEFAULT_PARAMS "advance60Init initialState"]
    by (simp add: advance60Points_def advance60Init_def del: advance60Loop.simps)
  moreover have "st_nicotine (advance60 DEFAULT_PARAMS initialState) = 0"
    using advance60Loop_no_nicotine [of "advance60Init initialState" 60 DEFAULT_PARAMS]
    by (simp add: advance60_fields advance60Init_def initialState_def del: advance60Loop.simps)
  ultimately show ?thesis by simp
qed

subsection \<open>The trace buffer\<close>

lemma tick_trace:
  "st_trace (tick dt pf ps s) =
     filter (\<lambda>p. tp_t p \<ge> st_simMin s + dt - 60) (st_trace s) @
       [\<lparr> tp_t = st_simMin s + dt,
          tp_da = da (stepModel dt (st_nicotine s) (st_poolDA s) (st_poolGABA s) pf ps),
          tp_gaba = gaba (stepModel dt (st_nicotine s) (st_poolDA s) (st_poolGABA s) pf ps),
          tp_nic = nicotine (stepModel dt (st_nicotine s) (st_poolDA s) (st_poolGABA s) pf ps),
          tp_desAll = clamp01 ((1 / 2) * desens (poolDA (stepModel dt (st_nicotine s) (st_poolDA s) (st_poolGABA s) pf ps))
                         + (1 / 2) * desens (poolGABA (stepModel dt (st_nicotine s) (st_poolDA s) (st_poolGABA s) pf ps))),
          tp_puff = pf \<rparr>]"
  by (simp add: tick_def Let_def storeOut_def)

text \<open>
  C9. After a tick, every point of the trace has \<open>t \<ge> latest.t - 60\<close>, where the latest
  point is the one the tick appended, at \<open>simMin + dtMin\<close>; the points before it are
  the former points inside that window, the others being dropped. After \<^verbatim>\<open>advance60\<close> the
  trace is the former trace followed by the sixty new points, without its oldest elements
  beyond 900: it has \<open>min 900 (n + 60)\<close> points for a former trace of \<open>n\<close>, at most 900, and
  its last sixty are the new ones.
\<close>

theorem trace_retention:
  "(\<forall>p \<in> set (st_trace (tick dtMin pf ps s)).
        tp_t p \<ge> tp_t (last (st_trace (tick dtMin pf ps s))) - 60)
   \<and> st_trace (tick dtMin pf ps s) \<noteq> []
   \<and> tp_t (last (st_trace (tick dtMin pf ps s))) = st_simMin s + dtMin
   \<and> butlast (st_trace (tick dtMin pf ps s))
        = filter (\<lambda>p. tp_t p \<ge> st_simMin s + dtMin - 60) (st_trace s)
   \<and> length (advance60Points ps s) = 60
   \<and> st_trace (advance60 ps s)
        = drop (length (st_trace s) + 60 - 900) (st_trace s @ advance60Points ps s)
   \<and> length (st_trace (advance60 ps s)) = min 900 (length (st_trace s) + 60)
   \<and> length (st_trace (advance60 ps s)) \<le> 900
   \<and> drop (length (st_trace (advance60 ps s)) - 60) (st_trace (advance60 ps s))
        = advance60Points ps s"
proof -
  have len: "length (advance60Points ps s) = 60"
    by (rule advance60Points_length)
  have tr: "st_trace (advance60 ps s)
        = drop (length (st_trace s) + 60 - 900) (st_trace s @ advance60Points ps s)"
    by (simp add: advance60_fields(5) sliceLast_def len)
  have n: "length (st_trace (advance60 ps s)) = min 900 (length (st_trace s) + 60)"
    unfolding tr by (simp add: len)
  have new: "drop (length (st_trace (advance60 ps s)) - 60) (st_trace (advance60 ps s))
        = advance60Points ps s"
    unfolding n unfolding tr by (simp add: len)
  have tk: "(\<forall>p \<in> set (st_trace (tick dtMin pf ps s)).
        tp_t p \<ge> tp_t (last (st_trace (tick dtMin pf ps s))) - 60)
      \<and> st_trace (tick dtMin pf ps s) \<noteq> []
      \<and> tp_t (last (st_trace (tick dtMin pf ps s))) = st_simMin s + dtMin
      \<and> butlast (st_trace (tick dtMin pf ps s))
        = filter (\<lambda>p. tp_t p \<ge> st_simMin s + dtMin - 60) (st_trace s)"
    by (auto simp add: tick_trace)
  from n have "length (st_trace (advance60 ps s)) \<le> 900" by simp
  with tk len tr n new show ?thesis by blast
qed

text \<open>
  The tick of the witness starts at minute 100 from a trace with points at minutes 0 and
  50: the first is dropped, the second kept. Its batch starts from a full trace of 900
  points at minutes 1 to 900: the oldest sixty are dropped and the sixty new points kept.
\<close>

theorem trace_retention_witness:
  "\<lparr> tp_t = 50, tp_da = 2 / 10, tp_gaba = 1 / 2, tp_nic = 0, tp_desAll = 0, tp_puff = False \<rparr>
      \<in> set (st_trace (tick 1 False DEFAULT_PARAMS
        (initialState\<lparr> st_simMin := 100,
          st_trace := [\<lparr> tp_t = 0, tp_da = 2 / 10, tp_gaba = 1 / 2, tp_nic = 0, tp_desAll = 0, tp_puff = False \<rparr>,
            \<lparr> tp_t = 50, tp_da = 2 / 10, tp_gaba = 1 / 2, tp_nic = 0, tp_desAll = 0, tp_puff = False \<rparr>] \<rparr>)))
   \<and> tp_t \<lparr> tp_t = 50, tp_da = 2 / 10, tp_gaba = 1 / 2, tp_nic = 0, tp_desAll = 0, tp_puff = False \<rparr>
      \<ge> tp_t (last (st_trace (tick 1 False DEFAULT_PARAMS
        (initialState\<lparr> st_simMin := 100,
          st_trace := [\<lparr> tp_t = 0, tp_da = 2 / 10, tp_gaba = 1 / 2, tp_nic = 0, tp_desAll = 0, tp_puff = False \<rparr>,
            \<lparr> tp_t = 50, tp_da = 2 / 10, tp_gaba = 1 / 2, tp_nic = 0, tp_desAll = 0, tp_puff = False \<rparr>] \<rparr>)))) - 60
   \<and> \<lparr> tp_t = 0, tp_da = 2 / 10, tp_gaba = 1 / 2, tp_nic = 0, tp_desAll = 0, tp_puff = False \<rparr>
      \<notin> set (st_trace (tick 1 False DEFAULT_PARAMS
        (initialState\<lparr> st_simMin := 100,
          st_trace := [\<lparr> tp_t = 0, tp_da = 2 / 10, tp_gaba = 1 / 2, tp_nic = 0, tp_desAll = 0, tp_puff = False \<rparr>,
            \<lparr> tp_t = 50, tp_da = 2 / 10, tp_gaba = 1 / 2, tp_nic = 0, tp_desAll = 0, tp_puff = False \<rparr>] \<rparr>)))
   \<and> length (st_trace (advance60 DEFAULT_PARAMS
        (initialState\<lparr> st_simMin := 900,
          st_trace := map (\<lambda>i. \<lparr> tp_t = real i, tp_da = 2 / 10, tp_gaba = 1 / 2, tp_nic = 0, tp_desAll = 0, tp_puff = False \<rparr>) [1..<901] \<rparr>))) = 900
   \<and> st_trace (advance60 DEFAULT_PARAMS
        (initialState\<lparr> st_simMin := 900,
          st_trace := map (\<lambda>i. \<lparr> tp_t = real i, tp_da = 2 / 10, tp_gaba = 1 / 2, tp_nic = 0, tp_desAll = 0, tp_puff = False \<rparr>) [1..<901] \<rparr>))
      = map (\<lambda>i. \<lparr> tp_t = real i, tp_da = 2 / 10, tp_gaba = 1 / 2, tp_nic = 0, tp_desAll = 0, tp_puff = False \<rparr>) [61..<901]
        @ advance60Points DEFAULT_PARAMS
        (initialState\<lparr> st_simMin := 900,
          st_trace := map (\<lambda>i. \<lparr> tp_t = real i, tp_da = 2 / 10, tp_gaba = 1 / 2, tp_nic = 0, tp_desAll = 0, tp_puff = False \<rparr>) [1..<901] \<rparr>)"
proof -
  have m: "\<lparr> tp_t = 50, tp_da = 2 / 10, tp_gaba = 1 / 2, tp_nic = 0, tp_desAll = 0, tp_puff = False \<rparr>
      \<in> set (st_trace (tick 1 False DEFAULT_PARAMS
        (initialState\<lparr> st_simMin := 100,
          st_trace := [\<lparr> tp_t = 0, tp_da = 2 / 10, tp_gaba = 1 / 2, tp_nic = 0, tp_desAll = 0, tp_puff = False \<rparr>,
            \<lparr> tp_t = 50, tp_da = 2 / 10, tp_gaba = 1 / 2, tp_nic = 0, tp_desAll = 0, tp_puff = False \<rparr>] \<rparr>)))"
    by (simp add: tick_trace)
  have n: "\<lparr> tp_t = 0, tp_da = 2 / 10, tp_gaba = 1 / 2, tp_nic = 0, tp_desAll = 0, tp_puff = False \<rparr>
      \<notin> set (st_trace (tick 1 False DEFAULT_PARAMS
        (initialState\<lparr> st_simMin := 100,
          st_trace := [\<lparr> tp_t = 0, tp_da = 2 / 10, tp_gaba = 1 / 2, tp_nic = 0, tp_desAll = 0, tp_puff = False \<rparr>,
            \<lparr> tp_t = 50, tp_da = 2 / 10, tp_gaba = 1 / 2, tp_nic = 0, tp_desAll = 0, tp_puff = False \<rparr>] \<rparr>)))"
    by (simp add: tick_trace)
  from trace_retention [of 1 False DEFAULT_PARAMS
        "(initialState\<lparr> st_simMin := 100,
          st_trace := [\<lparr> tp_t = 0, tp_da = 2 / 10, tp_gaba = 1 / 2, tp_nic = 0, tp_desAll = 0, tp_puff = False \<rparr>,
            \<lparr> tp_t = 50, tp_da = 2 / 10, tp_gaba = 1 / 2, tp_nic = 0, tp_desAll = 0, tp_puff = False \<rparr>] \<rparr>)"]
  have w: "\<forall>p \<in> set (st_trace (tick 1 False DEFAULT_PARAMS
        (initialState\<lparr> st_simMin := 100,
          st_trace := [\<lparr> tp_t = 0, tp_da = 2 / 10, tp_gaba = 1 / 2, tp_nic = 0, tp_desAll = 0, tp_puff = False \<rparr>,
            \<lparr> tp_t = 50, tp_da = 2 / 10, tp_gaba = 1 / 2, tp_nic = 0, tp_desAll = 0, tp_puff = False \<rparr>] \<rparr>))).
      tp_t p \<ge> tp_t (last (st_trace (tick 1 False DEFAULT_PARAMS
        (initialState\<lparr> st_simMin := 100,
          st_trace := [\<lparr> tp_t = 0, tp_da = 2 / 10, tp_gaba = 1 / 2, tp_nic = 0, tp_desAll = 0, tp_puff = False \<rparr>,
            \<lparr> tp_t = 50, tp_da = 2 / 10, tp_gaba = 1 / 2, tp_nic = 0, tp_desAll = 0, tp_puff = False \<rparr>] \<rparr>)))) - 60"
    by blast
  from trace_retention [of 1 False DEFAULT_PARAMS
        "(initialState\<lparr> st_simMin := 900,
          st_trace := map (\<lambda>i. \<lparr> tp_t = real i, tp_da = 2 / 10, tp_gaba = 1 / 2, tp_nic = 0, tp_desAll = 0, tp_puff = False \<rparr>) [1..<901] \<rparr>)"]
  have b: "length (advance60Points DEFAULT_PARAMS
        (initialState\<lparr> st_simMin := 900,
          st_trace := map (\<lambda>i. \<lparr> tp_t = real i, tp_da = 2 / 10, tp_gaba = 1 / 2, tp_nic = 0, tp_desAll = 0, tp_puff = False \<rparr>) [1..<901] \<rparr>)) = 60"
    "st_trace (advance60 DEFAULT_PARAMS
        (initialState\<lparr> st_simMin := 900,
          st_trace := map (\<lambda>i. \<lparr> tp_t = real i, tp_da = 2 / 10, tp_gaba = 1 / 2, tp_nic = 0, tp_desAll = 0, tp_puff = False \<rparr>) [1..<901] \<rparr>))
      = drop (length (st_trace (initialState\<lparr> st_simMin := 900,
          st_trace := map (\<lambda>i. \<lparr> tp_t = real i, tp_da = 2 / 10, tp_gaba = 1 / 2, tp_nic = 0, tp_desAll = 0, tp_puff = False \<rparr>) [1..<901] \<rparr>)) + 60 - 900)
         (st_trace (initialState\<lparr> st_simMin := 900,
          st_trace := map (\<lambda>i. \<lparr> tp_t = real i, tp_da = 2 / 10, tp_gaba = 1 / 2, tp_nic = 0, tp_desAll = 0, tp_puff = False \<rparr>) [1..<901] \<rparr>)
          @ advance60Points DEFAULT_PARAMS
        (initialState\<lparr> st_simMin := 900,
          st_trace := map (\<lambda>i. \<lparr> tp_t = real i, tp_da = 2 / 10, tp_gaba = 1 / 2, tp_nic = 0, tp_desAll = 0, tp_puff = False \<rparr>) [1..<901] \<rparr>))"
    "length (st_trace (advance60 DEFAULT_PARAMS
        (initialState\<lparr> st_simMin := 900,
          st_trace := map (\<lambda>i. \<lparr> tp_t = real i, tp_da = 2 / 10, tp_gaba = 1 / 2, tp_nic = 0, tp_desAll = 0, tp_puff = False \<rparr>) [1..<901] \<rparr>)))
      = min 900 (length (st_trace (initialState\<lparr> st_simMin := 900,
          st_trace := map (\<lambda>i. \<lparr> tp_t = real i, tp_da = 2 / 10, tp_gaba = 1 / 2, tp_nic = 0, tp_desAll = 0, tp_puff = False \<rparr>) [1..<901] \<rparr>)) + 60)"
    by blast+
  from b(3) have l: "length (st_trace (advance60 DEFAULT_PARAMS
        (initialState\<lparr> st_simMin := 900,
          st_trace := map (\<lambda>i. \<lparr> tp_t = real i, tp_da = 2 / 10, tp_gaba = 1 / 2, tp_nic = 0, tp_desAll = 0, tp_puff = False \<rparr>) [1..<901] \<rparr>))) = 900"
    by simp
  from b(2) have k: "st_trace (advance60 DEFAULT_PARAMS
        (initialState\<lparr> st_simMin := 900,
          st_trace := map (\<lambda>i. \<lparr> tp_t = real i, tp_da = 2 / 10, tp_gaba = 1 / 2, tp_nic = 0, tp_desAll = 0, tp_puff = False \<rparr>) [1..<901] \<rparr>))
      = map (\<lambda>i. \<lparr> tp_t = real i, tp_da = 2 / 10, tp_gaba = 1 / 2, tp_nic = 0, tp_desAll = 0, tp_puff = False \<rparr>) [61..<901]
        @ advance60Points DEFAULT_PARAMS
        (initialState\<lparr> st_simMin := 900,
          st_trace := map (\<lambda>i. \<lparr> tp_t = real i, tp_da = 2 / 10, tp_gaba = 1 / 2, tp_nic = 0, tp_desAll = 0, tp_puff = False \<rparr>) [1..<901] \<rparr>)"
    by (simp add: drop_map)
  from m n w l k show ?thesis by blast
qed

subsection \<open>Recovery from the abstinence preset\<close>

lemma decay_le:
  fixes n x :: real
  assumes "0 \<le> n" and "0 \<le> x"
  shows "0 \<le> n * (1 / 2) powr x \<and> n * (1 / 2) powr x \<le> n"
proof -
  have "(1 / 2 :: real) powr x \<le> 1" using assms(2) by (simp add: powr_le1)
  then have "n * (1 / 2) powr x \<le> n * 1" using assms(1) by (intro mult_left_mono) simp_all
  then show ?thesis using assms(1) by simp
qed

lemma stepModel_nicotine_decay:
  assumes "0 \<le> n" and "n \<le> 1" and "0 \<le> dt" and "0 < nicotineHalfLifeMin ps"
  shows "0 \<le> nicotine (stepModel dt n a g False ps) \<and> nicotine (stepModel dt n a g False ps) \<le> n"
proof -
  have "0 \<le> dt / nicotineHalfLifeMin ps" using assms(3,4) by simp
  from decay_le [OF assms(1) this]
  have b: "0 \<le> n * (1 / 2) powr (dt / nicotineHalfLifeMin ps)"
    "n * (1 / 2) powr (dt / nicotineHalfLifeMin ps) \<le> n" by simp_all
  with assms(2) have "clamp01 (n * (1 / 2) powr (dt / nicotineHalfLifeMin ps))
      = n * (1 / 2) powr (dt / nicotineHalfLifeMin ps)" by (intro clamp01_id) simp_all
  with b show ?thesis by (simp add: stepModel_nicotine)
qed

text \<open>
  With the default parameters and nicotine at most 0.02, which is below the activation
  threshold 0.15 and below 0.9 times it, a unit step moves one 45th of the desensitised
  fraction to the basal one and nothing else.
\<close>

lemma stepAlpha4b2_recovery:
  assumes "0 \<le> nic" and "nic \<le> 2 / 100" and "basal p + activado p + desens p = 1"
  shows "stepAlpha4b2 1 nic p DEFAULT_PARAMS r =
           \<lparr> basal = basal p + desens p / 45, activado = activado p, desens = desens p * (44 / 45) \<rparr>"
proof -
  have raw: "alpha4b2Fluxes 1 nic p DEFAULT_PARAMS r =
      \<lparr> basal = basal p + desens p / 45, activado = activado p, desens = desens p * (44 / 45) \<rparr>"
    using assms(1,2) by (simp add: alpha4b2Fluxes_def Let_def DEFAULT_PARAMS_def)
  have "basal (alpha4b2Fluxes 1 nic p DEFAULT_PARAMS r) + activado (alpha4b2Fluxes 1 nic p DEFAULT_PARAMS r)
      + desens (alpha4b2Fluxes 1 nic p DEFAULT_PARAMS r) = 1"
    using assms(3) by (simp add: alpha4b2Fluxes_sum)
  then have "normalizePool (alpha4b2Fluxes 1 nic p DEFAULT_PARAMS r) = alpha4b2Fluxes 1 nic p DEFAULT_PARAMS r"
    by (rule normalizePool_unit)
  then show ?thesis by (simp add: stepAlpha4b2_def raw)
qed

lemma advance60Body_recovery:
  assumes "lowNicotine v"
  shows "lowNicotine (advance60Body DEFAULT_PARAMS v)
       \<and> desens (v_pDA (advance60Body DEFAULT_PARAMS v)) = desens (v_pDA v) * (44 / 45)
       \<and> desens (v_pG (advance60Body DEFAULT_PARAMS v)) = desens (v_pG v) * (44 / 45)"
proof -
  define out where "out = stepModel 1 (v_nic v) (v_pDA v) (v_pG v) False DEFAULT_PARAMS"
  from assms have n: "0 \<le> v_nic v" "v_nic v \<le> 1" "v_nic v \<le> 2 / 100"
    and sa: "basal (v_pDA v) + activado (v_pDA v) + desens (v_pDA v) = 1"
    and sg: "basal (v_pG v) + activado (v_pG v) + desens (v_pG v) = 1"
    by (simp_all add: lowNicotine_def)
  have "0 \<le> nicotine out \<and> nicotine out \<le> v_nic v"
    unfolding out_def using n(1,2)
    by (intro stepModel_nicotine_decay) (simp_all add: DEFAULT_PARAMS_def)
  with n(3) have n': "0 \<le> nicotine out" "nicotine out \<le> 2 / 100" by simp_all
  have pa: "poolDA out = \<lparr> basal = basal (v_pDA v) + desens (v_pDA v) / 45,
        activado = activado (v_pDA v), desens = desens (v_pDA v) * (44 / 45) \<rparr>"
    using stepAlpha4b2_recovery [OF n' sa] by (simp add: out_def stepModel_poolDA)
  have pg: "poolGABA out = \<lparr> basal = basal (v_pG v) + desens (v_pG v) / 45,
        activado = activado (v_pG v), desens = desens (v_pG v) * (44 / 45) \<rparr>"
    using stepAlpha4b2_recovery [OF n' sg] by (simp add: out_def stepModel_poolGABA)
  have body: "v_nic (advance60Body DEFAULT_PARAMS v) = nicotine out"
    "v_pDA (advance60Body DEFAULT_PARAMS v) = poolDA out"
    "v_pG (advance60Body DEFAULT_PARAMS v) = poolGABA out"
    by (simp_all add: advance60Body_def Let_def out_def)
  show ?thesis
    using n' sa sg by (simp add: lowNicotine_def body pa pg)
qed

lemma advance60Loop_recovery:
  "lowNicotine v \<Longrightarrow>
     lowNicotine (advance60Loop n DEFAULT_PARAMS v)
     \<and> desens (v_pDA (advance60Loop n DEFAULT_PARAMS v)) = desens (v_pDA v) * (44 / 45) ^ n
     \<and> desens (v_pG (advance60Loop n DEFAULT_PARAMS v)) = desens (v_pG v) * (44 / 45) ^ n"
proof (induction n arbitrary: v)
  case 0
  then show ?case by simp
next
  case (Suc n)
  from advance60Body_recovery [OF Suc.prems]
  have b: "lowNicotine (advance60Body DEFAULT_PARAMS v)"
    "desens (v_pDA (advance60Body DEFAULT_PARAMS v)) = desens (v_pDA v) * (44 / 45)"
    "desens (v_pG (advance60Body DEFAULT_PARAMS v)) = desens (v_pG v) * (44 / 45)"
    by simp_all
  from Suc.IH [OF b(1)] show ?case by (simp add: b(2,3))
qed

lemma applyPreset_abstinencia:
  "st_nicotine (applyPreset Abstinencia s) = 2 / 100"
  "st_poolDA (applyPreset Abstinencia s) = \<lparr> basal = 35 / 100, activado = 5 / 100, desens = 6 / 10 \<rparr>"
  "st_poolGABA (applyPreset Abstinencia s) = \<lparr> basal = 4 / 10, activado = 5 / 100, desens = 55 / 100 \<rparr>"
  "st_simMin (applyPreset Abstinencia s) = 0"
  "st_trace (applyPreset Abstinencia s) = []"
  by (simp_all add: applyPreset_def resetTimeline_def Let_def normalizePool_def)

text \<open>
  C8. The abstinence preset sets nicotine to 0.02 and the pools to \<open>{0.35, 0.05, 0.60}\<close> and
  \<open>{0.40, 0.05, 0.55}\<close>, which are normalised already. One \<^verbatim>\<open>advance60\<close> batch with the
  default parameters multiplies the desensitised fraction of each pool by \<open>(44/45)^60\<close>, so
  both are strictly lower after the batch than before.
\<close>

theorem abstinence_recovery:
  "st_nicotine (applyPreset Abstinencia s) = 2 / 100
   \<and> st_poolDA (applyPreset Abstinencia s) = \<lparr> basal = 35 / 100, activado = 5 / 100, desens = 6 / 10 \<rparr>
   \<and> st_poolGABA (applyPreset Abstinencia s) = \<lparr> basal = 4 / 10, activado = 5 / 100, desens = 55 / 100 \<rparr>
   \<and> desens (st_poolDA (advance60 DEFAULT_PARAMS (applyPreset Abstinencia s)))
        = desens (st_poolDA (applyPreset Abstinencia s)) * (44 / 45) ^ 60
   \<and> desens (st_poolGABA (advance60 DEFAULT_PARAMS (applyPreset Abstinencia s)))
        = desens (st_poolGABA (applyPreset Abstinencia s)) * (44 / 45) ^ 60
   \<and> desens (st_poolDA (advance60 DEFAULT_PARAMS (applyPreset Abstinencia s)))
        < desens (st_poolDA (applyPreset Abstinencia s))
   \<and> desens (st_poolGABA (advance60 DEFAULT_PARAMS (applyPreset Abstinencia s)))
        < desens (st_poolGABA (applyPreset Abstinencia s))"
proof -
  define s0 where "s0 = applyPreset Abstinencia s"
  have low: "lowNicotine (advance60Init s0)"
    by (simp add: lowNicotine_def advance60Init_def s0_def applyPreset_abstinencia)
  from advance60Loop_recovery [OF low, of 60]
  have da: "desens (st_poolDA (advance60 DEFAULT_PARAMS s0)) = desens (st_poolDA s0) * (44 / 45) ^ 60"
    and ga: "desens (st_poolGABA (advance60 DEFAULT_PARAMS s0)) = desens (st_poolGABA s0) * (44 / 45) ^ 60"
    by (simp_all add: advance60_fields advance60Init_def del: advance60Loop.simps)
  have "(44 / 45 :: real) ^ Suc 59 < 1" by (rule power_Suc_less_one) simp_all
  then have c: "(44 / 45 :: real) ^ 60 < 1" by simp
  have pda: "0 < desens (st_poolDA s0)" by (simp add: s0_def applyPreset_abstinencia)
  have pga: "0 < desens (st_poolGABA s0)" by (simp add: s0_def applyPreset_abstinencia)
  have "desens (st_poolDA s0) * (44 / 45) ^ 60 < desens (st_poolDA s0) * 1"
    using pda c by (intro mult_strict_left_mono)
  moreover have "desens (st_poolGABA s0) * (44 / 45) ^ 60 < desens (st_poolGABA s0) * 1"
    using pga c by (intro mult_strict_left_mono)
  ultimately show ?thesis
    using da ga by (simp add: s0_def [symmetric] applyPreset_abstinencia [of s, folded s0_def])
qed

end
